theory Spec2Isabelle
  imports Complex_Main "HOL-Library.Word"
begin

unbundle bit_operations_syntax

section \<open>Aggregates of a sample series (scripts/monitor.cjs)\<close>

text \<open>
  JavaScript numbers are modelled as exact reals: the samples are finite, non-NaN doubles and
  the rounding of IEEE arithmetic is left out.  A read past the end of an array yields
  \<open>undefined\<close> in JavaScript; it is the value \<open>None\<close> here.

  \<^verbatim>\<open>function average(arr) {
    return arr.length > 0 ? arr.reduce((a, b) => a + b, 0) / arr.length : 0; }\<close>

  \<^verbatim>\<open>function percentile(sortedArr, p) {
    if (sortedArr.length === 0) return 0;
    const index = Math.ceil((p / 100) * sortedArr.length) - 1;
    return sortedArr[Math.max(0, index)]; }\<close>
\<close>

definition average :: "real list \<Rightarrow> real" where
  "average arr =
     (if length arr > 0 then foldl (\<lambda>a b. a + b) 0 arr / real (length arr) else 0)"

definition percentile_index :: "nat \<Rightarrow> real \<Rightarrow> int" where
  "percentile_index n p = max 0 (\<lceil>(p / 100) * real n\<rceil> - 1)"

definition percentile :: "real list \<Rightarrow> real \<Rightarrow> real option" where
  "percentile sortedArr p =
     (if length sortedArr = 0 then Some 0
      else let i = nat (percentile_index (length sortedArr) p)
           in if i < length sortedArr then Some (sortedArr ! i) else None)"


section \<open>Capacity estimate printed at the end of a run\<close>

text \<open>
  The estimate is computed inline where the summary is printed.  Its inputs are the maxima
  of the CPU and memory series of the container \<open>m3w\<close>; these are maxima of values parsed
  from digit strings, hence finite and never negative.  A JavaScript division of a positive
  number by zero yields \<open>Infinity\<close>, and \<open>Math.floor\<close> and the multiplication by a
  positive constant keep it.

  scripts/monitor.cjs, \<open>shutdown\<close>:
  \<^verbatim>\<open>const cpuHeadroom = 100 / m3wStats.cpu.max;
  const memLimit = 2048; // 2GB limit from docker-compose
  const memHeadroom = memLimit / m3wStats.memoryMB.max;
  console.log(`  At 100 VUs: CPU max ...`);
  console.log(`... (CPU bound): ~${Math.floor(100 * cpuHeadroom)}`);
  console.log(`... (Memory bound): ~${Math.floor(100 * memHeadroom)}`);\<close>
\<close>

datatype xnum = Finite real | Infinity

definition js_divide_pos :: "real \<Rightarrow> real \<Rightarrow> xnum" where
  \<comment> \<open>\<open>c / x\<close> for a positive constant \<open>c\<close>\<close>
  "js_divide_pos c x = (if x = 0 then Infinity else Finite (c / x))"

definition js_floor_times :: "real \<Rightarrow> xnum \<Rightarrow> xnum" where
  \<comment> \<open>\<open>Math.floor(c * h)\<close> for a positive constant \<open>c\<close>\<close>
  "js_floor_times c h =
     (case h of Infinity \<Rightarrow> Infinity | Finite r \<Rightarrow> Finite (of_int \<lfloor>c * r\<rfloor>))"

record capacity =
  cpuBound :: xnum
  memBound :: xnum

definition monitor_capacity :: "real \<Rightarrow> real \<Rightarrow> capacity" where
  "monitor_capacity cpuMax memMax =
     (let cpuHeadroom = js_divide_pos 100 cpuMax;
          memLimit = 2048;
          memHeadroom = js_divide_pos memLimit memMax
      in \<lparr>cpuBound = js_floor_times 100 cpuHeadroom,
          memBound = js_floor_times 100 memHeadroom\<rparr>)"

text \<open>
  The full-run script (\<open>main\<close>) prints each line only behind a guard; a line that is not
  printed is \<open>None\<close>.
  \<^verbatim>\<open>const memLimit = 2048; // 2GB limit
  console.log(`   At 500 VUs: CPU max ...`);
  if (cpuMax > 0) { console.log(`...: ~${Math.floor(500 * (100 / cpuMax))}`); }
  if (memMax > 0) { console.log(`...: ~${Math.floor(500 * (memLimit / memMax))}`); }\<close>
\<close>

definition runner_capacity :: "real \<Rightarrow> real \<Rightarrow> int option \<times> int option" where
  "runner_capacity cpuMax memMax =
     (let memLimit = 2048
      in (if cpuMax > 0 then Some \<lfloor>500 * (100 / cpuMax)\<rfloor> else None,
          if memMax > 0 then Some \<lfloor>500 * (memLimit / memMax)\<rfloor> else None))"

section \<open>Unique upload payloads (k6/upload.js)\<close>

text \<open>
  \<open>vu\<close>, \<open>iter\<close> and \<open>timestamp\<close> are integral JavaScript numbers (\<open>__VU\<close>, \<open>__ITER\<close>,
  \<open>Date.now()\<close>), modelled as integers; the clock is read inside the function and is a
  parameter here.  The operator \<open>>>\<close> converts its left operand to a signed 32-bit integer,
  takes the shift count modulo 32 and shifts arithmetically; \<open>&\<close> works on signed 32-bit
  integers; a store into a \<open>Uint8Array\<close> keeps the value modulo 256, and a store at an
  index past the end of the array is dropped, as \<open>list_update\<close> does.
\<close>

type_synonym byte = "8 word"

definition js_sar :: "int \<Rightarrow> nat \<Rightarrow> int" where
  "js_sar x n = sint (signed_drop_bit (n mod 32) (word_of_int x :: 32 word))"

definition js_bitand :: "int \<Rightarrow> int \<Rightarrow> int" where
  "js_bitand a b = sint ((word_of_int a :: 32 word) AND (word_of_int b :: 32 word))"

definition to_uint8 :: "int \<Rightarrow> byte" where
  "to_uint8 x = word_of_int x"

definition byte_at :: "int \<Rightarrow> nat \<Rightarrow> byte" where
  \<comment> \<open>the stored value of \<open>(x >> n) & 0xFF\<close>\<close>
  "byte_at x n = to_uint8 (js_bitand (js_sar x n) 0xFF)"

definition createUniqueFileData :: "byte list \<Rightarrow> int \<Rightarrow> int \<Rightarrow> int \<Rightarrow> byte list" where
  "createUniqueFileData baseFileData vu iter timestamp =
     (let uniqueData = baseFileData;
          offset = 100
      in uniqueData
          [offset := byte_at vu 24,
           offset + 1 := byte_at vu 16,
           offset + 2 := byte_at vu 8,
           offset + 3 := byte_at vu 0,
           offset + 4 := byte_at iter 24,
           offset + 5 := byte_at iter 16,
           offset + 6 := byte_at iter 8,
           offset + 7 := byte_at iter 0,
           offset + 8 := byte_at timestamp 56,
           offset + 9 := byte_at timestamp 48,
           offset + 10 := byte_at timestamp 40,
           offset + 11 := byte_at timestamp 32,
           offset + 12 := byte_at timestamp 24,
           offset + 13 := byte_at timestamp 16,
           offset + 14 := byte_at timestamp 8,
           offset + 15 := byte_at timestamp 0])"

text \<open>The sixteen values the function stores, in the order of their offsets.\<close>

definition stored_window :: "int \<Rightarrow> int \<Rightarrow> int \<Rightarrow> byte list" where
  "stored_window vu iter timestamp =
     [byte_at vu 24, byte_at vu 16, byte_at vu 8, byte_at vu 0,
      byte_at iter 24, byte_at iter 16, byte_at iter 8, byte_at iter 0,
      byte_at timestamp 56, byte_at timestamp 48, byte_at timestamp 40, byte_at timestamp 32,
      byte_at timestamp 24, byte_at timestamp 16, byte_at timestamp 8, byte_at timestamp 0]"

text \<open>
  The specification's window, for comparison: the big-endian encoding of a number in
  \<open>k\<close> bytes, most significant byte first.
\<close>

definition big_endian :: "nat \<Rightarrow> int \<Rightarrow> byte list" where
  "big_endian k x = map (\<lambda>j. word_of_int (x div 256 ^ (k - 1 - j))) [0..<k]"

definition spec_window :: "int \<Rightarrow> int \<Rightarrow> int \<Rightarrow> byte list" where
  "spec_window workerId iterationId timestampMs =
     big_endian 4 workerId @ big_endian 4 iterationId @ big_endian 8 timestampMs"

section \<open>Phase selection of the capacity test (k6/capacity.js, k6/config.js)\<close>

text \<open>
  \<^verbatim>\<open>export const behavior = { startup: 0.05, listening: 0.85, managing: 0.10 };\<close>

  \<^verbatim>\<open>const rand = Math.random();
  if (rand < behavior.startup) { startupPhase(); }
  else if (rand < behavior.startup + behavior.listening) {
    const testSongId = config.testSongId;
    if (!testSongId) { console.warn(...); sleep(1); return; }
    listeningPhase(testSongId);
  } else { managingPhase(); }\<close>

  The draw is a parameter.  The function has no \<open>throw\<close> and reads neither
  \<open>behavior.managing\<close> nor the sum of the weights.
\<close>

record behavior =
  startup :: real
  listening :: real
  managing :: real

definition behavior_config :: behavior where
  "behavior_config = \<lparr>startup = 0.05, listening = 0.85, managing = 0.10\<rparr>"

datatype phase = Startup | Listening | Managing

datatype action = StartupPhase | ListeningPhase string | ListeningSkipped | ManagingPhase

definition capacity_default :: "behavior \<Rightarrow> string \<Rightarrow> real \<Rightarrow> action" where
  "capacity_default b testSongId rand =
     (if rand < startup b then StartupPhase
      else if rand < startup b + listening b then
        (if testSongId = [] then ListeningSkipped else ListeningPhase testSongId)
      else ManagingPhase)"

fun phase_of :: "action \<Rightarrow> phase" where
  "phase_of StartupPhase = Startup"
| "phase_of (ListeningPhase s) = Listening"
| "phase_of ListeningSkipped = Listening"
| "phase_of ManagingPhase = Managing"

text \<open>
  The specification's partition, for comparison: the cumulative upper bound of each phase
  in the order startup, listening, managing, and the first phase whose bound exceeds the
  draw.
\<close>

fun cumulative :: "behavior \<Rightarrow> phase \<Rightarrow> real" where
  "cumulative b Startup = startup b"
| "cumulative b Listening = startup b + listening b"
| "cumulative b Managing = startup b + listening b + managing b"

definition first_exceeding :: "behavior \<Rightarrow> real \<Rightarrow> phase option" where
  "first_exceeding b draw = find (\<lambda>p. draw < cumulative b p) [Startup, Listening, Managing]"

text \<open>
  The specification's valid tables: every weight positive, and the sum within \<open>eps\<close>
  of 1.
\<close>

definition valid_weights :: "real \<Rightarrow> behavior \<Rightarrow> bool" where
  "valid_weights eps b \<longleftrightarrow>
     0 < startup b \<and> 0 < listening b \<and> 0 < managing b \<and>
     \<bar>startup b + listening b + managing b - 1\<bar> \<le> eps"

section \<open>Strings and regular expressions of the JavaScript runtime\<close>

text \<open>
  The library functions the sampler calls, on ASCII text: \<open>includes\<close>, \<open>startsWith\<close>,
  \<open>split\<close> at a one-character separator, \<open>trim\<close>, \<open>replace\<close> of the first
  occurrence of a plain string, \<open>toLowerCase\<close>, and \<open>parseFloat\<close> on unsigned decimal
  text without exponent (the only text the sampler passes to it).  \<open>NaN\<close> is a value of
  its own, kept by every arithmetic operation.
\<close>

definition TAB :: char where "TAB = CHR 0x09"
definition LF :: char where "LF = CHR 0x0A"

definition is_digit :: "char \<Rightarrow> bool" where
  "is_digit c \<longleftrightarrow> c \<in> set ''0123456789''"

definition is_upper :: "char \<Rightarrow> bool" where
  "is_upper c \<longleftrightarrow> c \<in> set ''ABCDEFGHIJKLMNOPQRSTUVWXYZ''"

definition is_lower :: "char \<Rightarrow> bool" where
  "is_lower c \<longleftrightarrow> c \<in> set ''abcdefghijklmnopqrstuvwxyz''"

definition is_word :: "char \<Rightarrow> bool" where
  \<comment> \<open>the class \<open>\w\<close>\<close>
  "is_word c \<longleftrightarrow> is_digit c \<or> is_upper c \<or> is_lower c \<or> c = CHR ''_''"

definition is_numch :: "char \<Rightarrow> bool" where
  \<comment> \<open>the class \<open>[\d.]\<close>\<close>
  "is_numch c \<longleftrightarrow> is_digit c \<or> c = CHR ''.''"

definition is_space :: "char \<Rightarrow> bool" where
  "is_space c \<longleftrightarrow> c \<in> {CHR 0x09, CHR 0x0A, CHR 0x0B, CHR 0x0C, CHR 0x0D, CHR 0x20}"

definition starts_with :: "string \<Rightarrow> string \<Rightarrow> bool" where
  "starts_with s p \<longleftrightarrow> take (length p) s = p"

fun js_includes :: "string \<Rightarrow> string \<Rightarrow> bool" where
  "js_includes [] p = (p = [])"
| "js_includes (c # cs) p = (starts_with (c # cs) p \<or> js_includes cs p)"

fun js_split :: "char \<Rightarrow> string \<Rightarrow> string list" where
  "js_split sep [] = [[]]"
| "js_split sep (c # cs) =
     (if c = sep then [] # js_split sep cs
      else (case js_split sep cs of [] \<Rightarrow> [[c]] | w # ws \<Rightarrow> (c # w) # ws))"

definition js_trim :: "string \<Rightarrow> string" where
  "js_trim s = rev (dropWhile is_space (rev (dropWhile is_space s)))"

fun js_replace :: "string \<Rightarrow> string \<Rightarrow> string \<Rightarrow> string" where
  "js_replace p r [] = (if p = [] then r else [])"
| "js_replace p r (c # cs) =
     (if starts_with (c # cs) p then r @ drop (length p) (c # cs)
      else c # js_replace p r cs)"

definition to_lower :: "char \<Rightarrow> char" where
  "to_lower c =
     (case map_of (zip ''ABCDEFGHIJKLMNOPQRSTUVWXYZ'' ''abcdefghijklmnopqrstuvwxyz'') c of
        Some l \<Rightarrow> l
      | None \<Rightarrow> c)"

definition toLowerCase :: "string \<Rightarrow> string" where
  "toLowerCase s = map to_lower s"

datatype jsnum = Num real | NaN

definition js_times :: "jsnum \<Rightarrow> real \<Rightarrow> jsnum" where
  "js_times v c = (case v of NaN \<Rightarrow> NaN | Num r \<Rightarrow> Num (r * c))"

definition js_over :: "jsnum \<Rightarrow> real \<Rightarrow> jsnum" where
  \<comment> \<open>division by a non-zero constant\<close>
  "js_over v c = (case v of NaN \<Rightarrow> NaN | Num r \<Rightarrow> Num (r / c))"

definition digits_val :: "string \<Rightarrow> nat" where
  "digits_val ds = foldl (\<lambda>a c. 10 * a + (of_char c - 48)) 0 ds"

definition parseFloat :: "string \<Rightarrow> jsnum" where
  "parseFloat s =
     (let ip = takeWhile is_digit s;
          rest = dropWhile is_digit s;
          fp = (case rest of [] \<Rightarrow> [] | c # r \<Rightarrow> if c = CHR ''.'' then takeWhile is_digit r else [])
      in if ip = [] \<and> fp = [] then NaN
         else Num (real (digits_val ip) + real (digits_val fp) / 10 ^ length fp))"

text \<open>
  \<open>s.match(/([\d.]+)/)\<close>: the first maximal run of digits and dots.
\<close>

definition match_number :: "string \<Rightarrow> string option" where
  "match_number s =
     (let r = dropWhile (\<lambda>c. \<not> is_numch c) s
      in if r = [] then None else Some (takeWhile is_numch r))"

text \<open>
  \<open>s.match(/([\d.]+)(\w+)/)\<close>: at the leftmost position where it is possible, the
  longest run of digits and dots that leaves at least one word character behind it, and
  then the longest run of word characters.  \<open>split_number_unit k s\<close> tries the lengths
  \<open>k\<close>, \<open>k - 1\<close>, ..., 1 for the first group at the start of \<open>s\<close>, as the backtracking
  matcher does.
\<close>

fun split_number_unit :: "nat \<Rightarrow> string \<Rightarrow> (string \<times> string) option" where
  "split_number_unit 0 s = None"
| "split_number_unit (Suc j) s =
     (let u = takeWhile is_word (drop (Suc j) s)
      in if u \<noteq> [] then Some (take (Suc j) s, u) else split_number_unit j s)"

fun match_number_unit :: "string \<Rightarrow> (string \<times> string) option" where
  "match_number_unit [] = None"
| "match_number_unit (c # cs) =
     (case split_number_unit (length (takeWhile is_numch (c # cs))) (c # cs) of
        Some m \<Rightarrow> Some m
      | None \<Rightarrow> match_number_unit cs)"

text \<open>
  \<open>s.match(/([\d.]+)([GMK]i?B)/)\<close>, the expression of the upload benchmark: the unit is
  one of \<open>G\<close>, \<open>M\<close>, \<open>K\<close>, an optional \<open>i\<close> and \<open>B\<close>, in exactly this case.
\<close>

definition unit_GMK :: "string \<Rightarrow> string option" where
  "unit_GMK r =
     (case r of [] \<Rightarrow> None
      | g # r1 \<Rightarrow>
          if g \<in> set ''GMK'' then
            (if starts_with r1 ''iB'' then Some (g # ''iB'')
             else if starts_with r1 ''B'' then Some (g # ''B'')
             else None)
          else None)"

fun split_number_GMK :: "nat \<Rightarrow> string \<Rightarrow> (string \<times> string) option" where
  "split_number_GMK 0 s = None"
| "split_number_GMK (Suc j) s =
     (case unit_GMK (drop (Suc j) s) of
        Some u \<Rightarrow> Some (take (Suc j) s, u)
      | None \<Rightarrow> split_number_GMK j s)"

fun match_number_GMK :: "string \<Rightarrow> (string \<times> string) option" where
  "match_number_GMK [] = None"
| "match_number_GMK (c # cs) =
     (case split_number_GMK (length (takeWhile is_numch (c # cs))) (c # cs) of
        Some m \<Rightarrow> Some m
      | None \<Rightarrow> match_number_GMK cs)"

section \<open>The telemetry sampler (scripts/monitor.cjs)\<close>

text \<open>
  \<^verbatim>\<open>function parseMemory(value, unit) {
    const unitLower = unit.toLowerCase();
    if (unitLower.includes('gib') || unitLower.includes('gb')) { return value * 1024; }
    if (unitLower.includes('mib') || unitLower.includes('mb')) { return value; }
    if (unitLower.includes('kib') || unitLower.includes('kb')) { return value / 1024; }
    return value; }\<close>
\<close>

definition parseMemory :: "jsnum \<Rightarrow> string \<Rightarrow> jsnum" where
  "parseMemory v u =
     (let unitLower = toLowerCase u
      in if js_includes unitLower ''gib'' \<or> js_includes unitLower ''gb'' then js_times v 1024
         else if js_includes unitLower ''mib'' \<or> js_includes unitLower ''mb'' then v
         else if js_includes unitLower ''kib'' \<or> js_includes unitLower ''kb'' then js_over v 1024
         else v)"

text \<open>
  The memory reading of one line, as the timer callback of \<open>monitor\<close> computes it from the
  third tab-separated field:
  \<^verbatim>\<open>const memMatch = parts[2].match(/([\d.]+)(\w+)/);
  let memMB = 0;
  if (memMatch) { memMB = parseMemory(parseFloat(memMatch[1]), memMatch[2]); }\<close>
\<close>

definition monitor_memMB :: "string \<Rightarrow> jsnum" where
  "monitor_memMB field =
     (case match_number_unit field of
        None \<Rightarrow> Num 0
      | Some (v, u) \<Rightarrow> parseMemory (parseFloat v) u)"

text \<open>
  The same reading in scripts/benchmark-upload.cjs, \<open>runUploadTest\<close>:
  \<^verbatim>\<open>const memMatch = mem.match(/([\d.]+)([GMK]i?B)/);
  let memMB = 0;
  if (memMatch) {
    const val = parseFloat(memMatch[1]);
    const unit = memMatch[2];
    if (unit.startsWith('G')) memMB = val * 1024;
    else if (unit.startsWith('M')) memMB = val;
    else if (unit.startsWith('K')) memMB = val / 1024; }\<close>
\<close>

definition benchmark_memMB :: "string \<Rightarrow> jsnum" where
  "benchmark_memMB mem =
     (case match_number_GMK mem of
        None \<Rightarrow> Num 0
      | Some (v, u) \<Rightarrow>
          (let val = parseFloat v
           in if starts_with u ''G'' then js_times val 1024
              else if starts_with u ''M'' then val
              else if starts_with u ''K'' then js_over val 1024
              else Num 0))"

text \<open>
  One tick of the timer of \<open>monitor\<close>.  The result of \<open>execSync\<close> is \<open>Some\<close> of the
  command's output, or \<open>None\<close> when the call throws (the command fails or exceeds its
  timeout); the \<open>catch\<close> block is empty.  The clock is read after the command returned;
  \<open>now\<close> is that reading minus the start time.  The object \<open>containers\<close> is a list
  of keys with their values, a later assignment to a key replacing the earlier value.
  The line written to the terminal is not part of the model.

  \<^verbatim>\<open>try {
    const output = execSync(`${runtime} stats --no-stream --format ...`, ...);
    const timestamp = Date.now() - startTime;
    const containers = {};
    for (const line of output.trim().split('\n')) {
      if (!line.includes('m3w-load-test')) continue;
      const parts = line.split('\t');
      if (parts.length < 3) continue;
      const name = parts[0].replace('m3w-load-test-', '').replace('m3w-load-test', 'm3w');
      const cpuMatch = parts[1].match(/([\d.]+)/);
      const cpu = cpuMatch ? parseFloat(cpuMatch[1]) : 0;
      ...
      containers[name] = { cpu, memMB };
    }
    if (Object.keys(containers).length > 0) { samples.push({ timestamp, containers }); ... }
  } catch (e) { }\<close>
\<close>

record container_stats =
  cpu :: jsnum
  memMB :: jsnum

record sample =
  timestamp :: int
  containers :: "(string \<times> container_stats) list"

fun object_set :: "string \<Rightarrow> 'v \<Rightarrow> (string \<times> 'v) list \<Rightarrow> (string \<times> 'v) list" where
  "object_set k v [] = [(k, v)]"
| "object_set k v ((k', v') # kvs) =
     (if k = k' then (k, v) # kvs else (k', v') # object_set k v kvs)"

definition monitor_line ::
  "string \<Rightarrow> (string \<times> container_stats) list \<Rightarrow> (string \<times> container_stats) list" where
  "monitor_line line cs =
     (if \<not> js_includes line ''m3w-load-test'' then cs
      else let parts = js_split TAB line
           in if length parts < 3 then cs
              else let name = js_replace ''m3w-load-test'' ''m3w''
                                (js_replace ''m3w-load-test-'' [] (parts ! 0));
                       cpuVal = (case match_number (parts ! 1) of
                                   Some g \<Rightarrow> parseFloat g
                                 | None \<Rightarrow> Num 0);
                       memVal = monitor_memMB (parts ! 2)
                   in object_set name \<lparr>cpu = cpuVal, memMB = memVal\<rparr> cs)"

definition monitor_tick :: "string option \<Rightarrow> int \<Rightarrow> sample list \<Rightarrow> sample list" where
  "monitor_tick exec now samples =
     (case exec of
        None \<Rightarrow> samples
      | Some output \<Rightarrow>
          (let cs = foldl (\<lambda>acc line. monitor_line line acc) [] (js_split LF (js_trim output))
           in if length cs > 0 then samples @ [\<lparr>timestamp = now, containers = cs\<rparr>]
              else samples))"

text \<open>
  A run of the sampler: the ticks in order, each with the result of its command and its
  clock reading, starting from the empty buffer \<open>const samples = []\<close>.
\<close>

definition monitor_run :: "(string option \<times> int) list \<Rightarrow> sample list \<Rightarrow> sample list" where
  "monitor_run ticks samples = foldl (\<lambda>acc (exec, now). monitor_tick exec now acc) samples ticks"

section \<open>Properties of the aggregates\<close>

lemma percentile_index_95_in_range: "0 < n \<Longrightarrow> nat (percentile_index n 95) < n"
proof -
  assume n: "0 < n"
  have "(95 / 100) * real n \<le> real_of_int (int n)" by simp
  then have "\<lceil>(95 / 100) * real n\<rceil> \<le> int n" by (simp only: ceiling_le_iff)
  with n show ?thesis unfolding percentile_index_def by simp
qed

text \<open>
  C1.  On a non-empty ascending list, \<open>percentile\<close> with \<open>p = 95\<close> returns the element at
  index \<open>ceil(0.95 * count) - 1\<close>, clamped to be at least 0, and that index lies inside the
  list; on \<open>[10, 20, 30, 40, 100]\<close> it returns 100 and on \<open>[1, 2, 3, 4]\<close> it returns 4.
\<close>

theorem percentile_p95_nearest_rank:
  "(sortedArr \<noteq> [] \<and> sorted sortedArr \<longrightarrow>
      percentile sortedArr 95 =
        Some (sortedArr ! nat (max 0 (\<lceil>0.95 * real (length sortedArr)\<rceil> - 1))) \<and>
      nat (max 0 (\<lceil>0.95 * real (length sortedArr)\<rceil> - 1)) < length sortedArr) \<and>
   percentile [10, 20, 30, 40, 100] 95 = Some 100 \<and>
   percentile [1, 2, 3, 4] 95 = Some 4"
proof (intro conjI impI)
  assume a: "sortedArr \<noteq> [] \<and> sorted sortedArr"
  then have n: "0 < length sortedArr" by simp
  have e: "percentile_index (length sortedArr) 95 =
      max 0 (\<lceil>0.95 * real (length sortedArr)\<rceil> - 1)"
    by (simp add: percentile_index_def)
  from percentile_index_95_in_range [OF n]
  show "nat (max 0 (\<lceil>0.95 * real (length sortedArr)\<rceil> - 1)) < length sortedArr"
    by (simp only: e)
  with n show "percentile sortedArr 95 =
        Some (sortedArr ! nat (max 0 (\<lceil>0.95 * real (length sortedArr)\<rceil> - 1)))"
    by (simp add: percentile_def e Let_def)
next
  show "percentile [10, 20, 30, 40, 100] 95 = Some 100"
    by (simp add: percentile_def percentile_index_def)
next
  show "percentile [1, 2, 3, 4] 95 = Some 4"
    by (simp add: percentile_def percentile_index_def)
qed

theorem percentile_p95_nearest_rank_witness:
  "[3, 5, 8 :: real] \<noteq> [] \<and> sorted [3, 5, 8 :: real] \<and> percentile [3, 5, 8] 95 = Some 8"
  using percentile_p95_nearest_rank [of "[3, 5, 8]"] by simp

text \<open>
  C10.  On the empty list both aggregates return 0: \<open>average []\<close> is 0 and
  \<open>percentile [] p\<close> is 0 for every \<open>p\<close>.
\<close>

theorem aggregates_total_on_empty:
  "average [] = 0 \<and> (\<forall>p. percentile [] p = Some 0)"
  by (simp add: average_def percentile_def)

section \<open>Properties of the capacity estimate\<close>

text \<open>
  C2, as the code has it.  The estimate never reads the concurrency that was observed: it
  extrapolates from the constant 100, the peak of the capacity profile, and from the
  constant ceiling of 2048 MB.  For a non-zero maximum the printed CPU bound is
  \<open>floor(100 * 100 / cpuMax)\<close> and the memory bound is \<open>floor(100 * 2048 / memMax)\<close>;
  for \<open>cpuMax = 40\<close> the CPU bound is 250.  For a maximum of zero the printed bound is
  \<open>Infinity\<close>.
\<close>

theorem capacity_estimate_fixed_concurrency:
  "(cpuMax \<noteq> 0 \<longrightarrow>
      cpuBound (monitor_capacity cpuMax memMax) = Finite (of_int \<lfloor>100 * 100 / cpuMax\<rfloor>)) \<and>
   (memMax \<noteq> 0 \<longrightarrow>
      memBound (monitor_capacity cpuMax memMax) = Finite (of_int \<lfloor>100 * 2048 / memMax\<rfloor>)) \<and>
   cpuBound (monitor_capacity 0 memMax) = Infinity \<and>
   memBound (monitor_capacity cpuMax 0) = Infinity \<and>
   cpuBound (monitor_capacity 40 memMax) = Finite 250"
  by (simp add: monitor_capacity_def js_divide_pos_def js_floor_times_def Let_def)

theorem capacity_estimate_fixed_concurrency_witness:
  "(40 :: real) \<noteq> 0 \<and> (512 :: real) \<noteq> 0 \<and>
   cpuBound (monitor_capacity 40 512) = Finite 250 \<and>
   memBound (monitor_capacity 40 512) = Finite 400"
  using capacity_estimate_fixed_concurrency [of 40 512] by simp

text \<open>
  C2, as it is stated, fails: with a CPU maximum of 40 the printed bound is 250 and not
  \<open>floor(20 * 100 / 40) = 50\<close>, whatever the concurrency of the run was.
\<close>

theorem capacity_estimate_ignores_observed_concurrency:
  "cpuBound (monitor_capacity 40 512) = Finite 250 \<and>
   cpuBound (monitor_capacity 40 512) \<noteq> Finite (of_int \<lfloor>20 * 100 / (40 :: real)\<rfloor>)"
  by (simp add: monitor_capacity_def js_divide_pos_def js_floor_times_def Let_def)

text \<open>
  The full-run script runs the same capacity profile, whose stages peak at 100, and yet
  multiplies by 500: at the same maxima its bounds are five times those of
  scripts/monitor.cjs.  Its guards print no line for a maximum of zero.
\<close>

lemma runner_capacity_five_times_monitor:
  "fst (runner_capacity 40 512) = Some 1250 \<and> cpuBound (monitor_capacity 40 512) = Finite 250 \<and>
   snd (runner_capacity 40 512) = Some 2000 \<and> memBound (monitor_capacity 40 512) = Finite 400"
  by (simp add: monitor_capacity_def runner_capacity_def js_divide_pos_def
      js_floor_times_def Let_def)

lemma runner_capacity_guard:
  "fst (runner_capacity 0 memMax) = None \<and> snd (runner_capacity cpuMax 0) = None"
  by (simp add: runner_capacity_def)

section \<open>Properties of the unique upload payloads\<close>

lemma createUniqueFileData_length:
  "length (createUniqueFileData base vu iter t) = length base"
  by (simp add: createUniqueFileData_def)

lemma window_cases:
  "100 \<le> i \<Longrightarrow> i < 116 \<Longrightarrow>
   i = 100 \<or> i = 101 \<or> i = 102 \<or> i = 103 \<or> i = 104 \<or> i = 105 \<or> i = 106 \<or> i = 107 \<or>
   i = 108 \<or> i = 109 \<or> i = 110 \<or> i = 111 \<or> i = 112 \<or> i = 113 \<or> i = 114 \<or> i = (115::nat)"
  by arith

text \<open>Every byte outside the offsets 100 to 115 is the byte of the base buffer.\<close>

lemma createUniqueFileData_outside:
  "i < 100 \<or> 116 \<le> i \<Longrightarrow> createUniqueFileData base vu iter t ! i = base ! i"
  by (auto simp add: createUniqueFileData_def)

lemma createUniqueFileData_inside:
  assumes "100 \<le> i" "i < 116" "i < length base"
  shows "createUniqueFileData base vu iter t ! i = stored_window vu iter t ! (i - 100)"
  using window_cases [OF assms(1,2)] assms(3)
  by (elim disjE) (simp_all add: createUniqueFileData_def stored_window_def)

lemma length_stored_window: "length (stored_window vu iter t) = 16"
  by (simp add: stored_window_def)

lemma createUniqueFileData_structure:
  assumes "116 \<le> length base"
  shows "createUniqueFileData base vu iter t =
    take 100 base @ stored_window vu iter t @ drop 116 base"
proof (rule nth_equalityI)
  show "length (createUniqueFileData base vu iter t) =
      length (take 100 base @ stored_window vu iter t @ drop 116 base)"
    using assms by (simp add: createUniqueFileData_length length_stored_window)
next
  fix i
  assume "i < length (createUniqueFileData base vu iter t)"
  then have i: "i < length base" by (simp add: createUniqueFileData_length)
  consider "i < 100" | "100 \<le> i" "i < 116" | "116 \<le> i" by linarith
  then show "createUniqueFileData base vu iter t ! i =
      (take 100 base @ stored_window vu iter t @ drop 116 base) ! i"
  proof cases
    case 1
    with assms show ?thesis
      by (simp add: createUniqueFileData_outside nth_append)
  next
    case 2
    then have "i - 100 < 16" by arith
    with 2 assms i show ?thesis
      by (simp add: createUniqueFileData_inside nth_append length_stored_window)
  next
    case 3
    then have "\<not> i - 100 < 16" and "116 + (i - 100 - 16) = i" by arith+
    with 3 assms i show ?thesis
      by (simp add: createUniqueFileData_outside nth_append length_stored_window)
  qed
qed

lemma createUniqueFileData_fixpoint:
  assumes "116 \<le> length base"
  shows "createUniqueFileData base vu iter t = base \<longleftrightarrow>
    take 16 (drop 100 base) = stored_window vu iter t"
proof
  assume "createUniqueFileData base vu iter t = base"
  then have "take 16 (drop 100 base) =
      take 16 (drop 100 (take 100 base @ stored_window vu iter t @ drop 116 base))"
    by (simp only: createUniqueFileData_structure [OF assms])
  also have "\<dots> = stored_window vu iter t"
    using assms by (simp add: length_stored_window)
  finally show "take 16 (drop 100 base) = stored_window vu iter t" .
next
  assume w: "take 16 (drop 100 base) = stored_window vu iter t"
  have "take 16 (drop 100 base) @ drop 116 base = drop 100 base"
    using append_take_drop_id [of 16 "drop 100 base"] by simp
  then have "take 100 base @ take 16 (drop 100 base) @ drop 116 base = base"
    by simp
  then have "take 100 base @ stored_window vu iter t @ drop 116 base = base"
    by (simp only: w)
  then show "createUniqueFileData base vu iter t = base"
    by (simp only: createUniqueFileData_structure [OF assms])
qed

lemma byte_at_small: "byte_at 1 0 = 1" "byte_at 2 0 = 2" "byte_at 0 0 = 0"
  by (simp_all add: byte_at_def js_sar_def js_bitand_def to_uint8_def)

lemma iteration_byte:
  assumes "108 \<le> length base"
  shows "createUniqueFileData base 1 1 t ! 107 = 1"
    and "createUniqueFileData base 1 2 t ! 107 = 2"
  using assms by (simp_all add: createUniqueFileData_def byte_at_small)

lemma stored_window_1_1_0:
  "stored_window 1 1 0 = [0, 0, 0, 1, 0, 0, 0, 1, 0, 0, 0, 0, 0, 0, 0, 0]"
  by (simp add: stored_window_def byte_at_def js_sar_def js_bitand_def to_uint8_def)

text \<open>
  What the sixteen stored bytes are.  A shift count of 32 or more wraps around, so the
  four shifts by 56, 48, 40 and 32 store the same bytes as the shifts by 24, 16, 8 and 0.
\<close>

lemma byte_at_wraps: "byte_at x (n + 32) = byte_at x n"
  by (simp add: byte_at_def js_sar_def)

lemma bit_255: "bit (255 :: int) i \<longleftrightarrow> i < 8"
proof -
  have "(255 :: int) = mask 8" by (simp add: mask_eq_exp_minus_1)
  then show ?thesis by (simp only: bit_mask_iff) simp
qed

lemma byte_at_div: "n \<le> 24 \<Longrightarrow> byte_at x n = word_of_int (x div 2 ^ n)"
  unfolding byte_at_def js_sar_def js_bitand_def to_uint8_def
  apply (rule bit_word_eqI)
  apply (simp add: bit_simps bit_255 add.commute flip: drop_bit_eq_div)
  apply arith
  done

lemma stored_window_vu_iter:
  "take 8 (stored_window vu iter t) = big_endian 4 vu @ big_endian 4 iter"
  by (simp add: stored_window_def big_endian_def byte_at_div upt_rec)

lemma stored_window_timestamp:
  "drop 8 (stored_window vu iter t) = drop 4 (big_endian 8 t) @ drop 4 (big_endian 8 t)"
  by (simp add: stored_window_def big_endian_def byte_at_div upt_rec
      byte_at_wraps [of t 24, simplified] byte_at_wraps [of t 16, simplified]
      byte_at_wraps [of t 8, simplified] byte_at_wraps [of t 0, simplified])

text \<open>
  C4, as the code has it.  For a base buffer of 5,242,880 bytes and any timestamp, the
  outputs for worker 1 with iterations 1 and 2 both have 5,242,880 bytes and differ from
  each other, at offset 107.  Each of them differs from the base buffer exactly when the
  base does not already hold, at the offsets 100 to 115, the sixteen bytes stored for that
  output; so the two are never both equal to the base.
\<close>

theorem synthesized_outputs_differ:
  "length base = 5242880 \<longrightarrow>
     length (createUniqueFileData base 1 1 t) = 5242880 \<and>
     length (createUniqueFileData base 1 2 t) = 5242880 \<and>
     createUniqueFileData base 1 1 t ! 107 \<noteq> createUniqueFileData base 1 2 t ! 107 \<and>
     createUniqueFileData base 1 1 t \<noteq> createUniqueFileData base 1 2 t \<and>
     (createUniqueFileData base 1 1 t = base \<longleftrightarrow>
        take 16 (drop 100 base) = stored_window 1 1 t) \<and>
     (createUniqueFileData base 1 2 t = base \<longleftrightarrow>
        take 16 (drop 100 base) = stored_window 1 2 t) \<and>
     \<not> (createUniqueFileData base 1 1 t = base \<and> createUniqueFileData base 1 2 t = base)"
proof
  assume len: "length base = 5242880"
  then have l108: "108 \<le> length base" and l116: "116 \<le> length base" by simp_all
  have d: "createUniqueFileData base 1 1 t ! 107 \<noteq> createUniqueFileData base 1 2 t ! 107"
    by (simp add: iteration_byte [OF l108])
  then have ne: "createUniqueFileData base 1 1 t \<noteq> createUniqueFileData base 1 2 t"
    by metis
  then have "\<not> (createUniqueFileData base 1 1 t = base \<and> createUniqueFileData base 1 2 t = base)"
    by metis
  with d ne len show "length (createUniqueFileData base 1 1 t) = 5242880 \<and>
     length (createUniqueFileData base 1 2 t) = 5242880 \<and>
     createUniqueFileData base 1 1 t ! 107 \<noteq> createUniqueFileData base 1 2 t ! 107 \<and>
     createUniqueFileData base 1 1 t \<noteq> createUniqueFileData base 1 2 t \<and>
     (createUniqueFileData base 1 1 t = base \<longleftrightarrow>
        take 16 (drop 100 base) = stored_window 1 1 t) \<and>
     (createUniqueFileData base 1 2 t = base \<longleftrightarrow>
        take 16 (drop 100 base) = stored_window 1 2 t) \<and>
     \<not> (createUniqueFileData base 1 1 t = base \<and> createUniqueFileData base 1 2 t = base)"
    by (simp add: createUniqueFileData_length createUniqueFileData_fixpoint [OF l116])
qed

theorem synthesized_outputs_differ_witness:
  "length (replicate 5242880 (0 :: byte)) = 5242880 \<and>
   createUniqueFileData (replicate 5242880 0) 1 1 0 \<noteq>
     createUniqueFileData (replicate 5242880 0) 1 2 0"
  using synthesized_outputs_differ [of "replicate 5242880 0" 0] by simp

text \<open>
  C4, as it is stated, fails: a base buffer of 5,242,880 bytes that holds the bytes of
  worker 1, iteration 1 and timestamp 0 at the offsets 100 to 115 is returned unchanged.
\<close>

theorem synthesized_output_can_equal_base:
  "length ((replicate 5242880 (0 :: byte))[103 := 1, 107 := 1]) = 5242880 \<and>
   createUniqueFileData ((replicate 5242880 0)[103 := 1, 107 := 1]) 1 1 0 =
     (replicate 5242880 0)[103 := 1, 107 := 1]"
proof -
  have "take 16 (drop 100 ((replicate 5242880 (0 :: byte))[103 := 1, 107 := 1])) =
      stored_window 1 1 0"
    by (rule nth_equalityI) (auto simp add: stored_window_1_1_0 nth_list_update nth_Cons')
  then show ?thesis
    by (simp add: createUniqueFileData_fixpoint)
qed

text \<open>
  C5.  With a base of 116 zero bytes, worker 1, iteration 1 and the clock reading
  1700000000000, the bytes at the offsets 108 to 111 are \<open>CF E5 68 00\<close>, a second copy of
  the low four bytes of the timestamp, where its big-endian encoding in eight bytes has
  \<open>00 00 01 8B\<close>.
\<close>

theorem timestamp_window_not_big_endian:
  "drop 100 (createUniqueFileData (replicate 116 0) 1 1 1700000000000) =
     [0, 0, 0, 1, 0, 0, 0, 1, 0xCF, 0xE5, 0x68, 0, 0xCF, 0xE5, 0x68, 0] \<and>
   spec_window 1 1 1700000000000 =
     [0, 0, 0, 1, 0, 0, 0, 1, 0, 0, 1, 0x8B, 0xCF, 0xE5, 0x68, 0]"
proof
  have "stored_window 1 1 1700000000000 =
      [0, 0, 0, 1, 0, 0, 0, 1, 0xCF, 0xE5, 0x68, 0, 0xCF, 0xE5, 0x68, 0]"
    by (simp add: stored_window_def byte_at_def js_sar_def js_bitand_def to_uint8_def)
  then show "drop 100 (createUniqueFileData (replicate 116 0) 1 1 1700000000000) =
     [0, 0, 0, 1, 0, 0, 0, 1, 0xCF, 0xE5, 0x68, 0, 0xCF, 0xE5, 0x68, 0]"
    by (simp add: createUniqueFileData_structure)
next
  show "spec_window 1 1 1700000000000 =
     [0, 0, 0, 1, 0, 0, 0, 1, 0, 0, 1, 0x8B, 0xCF, 0xE5, 0x68, 0]"
    by (simp add: spec_window_def big_endian_def upt_rec)
qed

text \<open>
  C6, as the code has it.  For a base buffer shorter than 116 bytes the function does not
  fail: it returns a buffer of the same length in which every offset from 100 up to the
  end holds the byte stored for it, every offset below 100 holds the base byte, and the
  stores past the end are dropped.
\<close>

theorem short_base_partially_written:
  "length base < 116 \<longrightarrow>
     length (createUniqueFileData base vu iter t) = length base \<and>
     (\<forall>i < length base.
        createUniqueFileData base vu iter t ! i =
          (if 100 \<le> i then stored_window vu iter t ! (i - 100) else base ! i))"
  by (simp add: createUniqueFileData_length createUniqueFileData_inside
      createUniqueFileData_outside)

theorem short_base_partially_written_witness:
  "length (replicate 104 (0 :: byte)) < 116 \<and> (103 :: nat) < length (replicate 104 (0 :: byte)) \<and>
   length (createUniqueFileData (replicate 104 0) 1 1 0) = 104 \<and>
   createUniqueFileData (replicate 104 0) 1 1 0 ! 103 = 1"
  using short_base_partially_written [of "replicate 104 0" 1 1 0]
  by (simp add: stored_window_1_1_0)

text \<open>
  C6, as it is stated, fails: for a base of 104 zero bytes the function returns a buffer
  of 104 bytes that holds the four bytes of the worker number and nothing of the
  iteration number and the timestamp.
\<close>

theorem short_base_returns_buffer:
  "length (replicate 104 (0 :: byte)) < 116 \<and>
   createUniqueFileData (replicate 104 0) 1 1 0 = (replicate 104 0)[103 := 1]"
proof
  show "length (replicate 104 (0 :: byte)) < 116" by simp
next
  show "createUniqueFileData (replicate 104 0) 1 1 0 = (replicate 104 0)[103 := 1]"
  proof (rule nth_equalityI)
    show "length (createUniqueFileData (replicate 104 0) 1 1 0) =
        length ((replicate 104 (0 :: byte))[103 := 1])"
      by (simp add: createUniqueFileData_length)
  next
    fix i
    assume "i < length (createUniqueFileData (replicate 104 0) 1 1 0)"
    then have i: "i < 104" by (simp add: createUniqueFileData_length)
    consider "i < 100" | "i = 100" | "i = 101" | "i = 102" | "i = 103"
      using i by linarith
    then show "createUniqueFileData (replicate 104 0) 1 1 0 ! i =
        (replicate 104 (0 :: byte))[103 := 1] ! i"
      by cases (simp_all add: createUniqueFileData_outside createUniqueFileData_inside
          stored_window_1_1_0)
  qed
qed

section \<open>Properties of the phase selection\<close>

lemma phase_of_capacity_default:
  "phase_of (capacity_default b testSongId draw) =
     (if draw < startup b then Startup
      else if draw < startup b + listening b then Listening else Managing)"
  by (simp add: capacity_default_def)

lemma first_exceeding_cases:
  "first_exceeding b draw =
     (if draw < startup b then Some Startup
      else if draw < startup b + listening b then Some Listening
      else if draw < startup b + listening b + managing b then Some Managing
      else None)"
  by (simp add: first_exceeding_def)

text \<open>
  C7, as the code has it.  The selection validates nothing and fails on no weight table.
  For every table and every draw it returns the first phase whose cumulative upper bound
  exceeds the draw, and the managing phase when no bound exceeds it.  Some bound exceeds
  the draw whenever the draw is below the sum of the three weights: for every table
  whose weights sum to at least 1 and every draw below 1, and for every table that is
  valid within \<open>eps\<close> and every draw below \<open>1 - eps\<close>.
\<close>

theorem phase_selection_no_validation:
  "phase_of (capacity_default b testSongId draw) =
     (case first_exceeding b draw of Some p \<Rightarrow> p | None \<Rightarrow> Managing) \<and>
   (draw < startup b + listening b + managing b \<longrightarrow>
      first_exceeding b draw = Some (phase_of (capacity_default b testSongId draw))) \<and>
   (1 \<le> startup b + listening b + managing b \<and> draw < 1 \<longrightarrow>
      first_exceeding b draw = Some (phase_of (capacity_default b testSongId draw))) \<and>
   (valid_weights eps b \<and> draw < 1 - eps \<longrightarrow>
      first_exceeding b draw = Some (phase_of (capacity_default b testSongId draw)))"
proof (intro conjI impI)
  show "phase_of (capacity_default b testSongId draw) =
      (case first_exceeding b draw of Some p \<Rightarrow> p | None \<Rightarrow> Managing)"
    by (simp add: phase_of_capacity_default first_exceeding_cases)
next
  assume "draw < startup b + listening b + managing b"
  then show "first_exceeding b draw = Some (phase_of (capacity_default b testSongId draw))"
    by (simp add: phase_of_capacity_default first_exceeding_cases)
next
  assume "1 \<le> startup b + listening b + managing b \<and> draw < 1"
  then have "draw < startup b + listening b + managing b" by linarith
  then show "first_exceeding b draw = Some (phase_of (capacity_default b testSongId draw))"
    by (simp add: phase_of_capacity_default first_exceeding_cases)
next
  assume "valid_weights eps b \<and> draw < 1 - eps"
  then have "draw < startup b + listening b + managing b"
    unfolding valid_weights_def by linarith
  then show "first_exceeding b draw = Some (phase_of (capacity_default b testSongId draw))"
    by (simp add: phase_of_capacity_default first_exceeding_cases)
qed

theorem phase_selection_no_validation_witness:
  "(0.5 :: real) < startup behavior_config + listening behavior_config + managing behavior_config \<and>
   (1 :: real) \<le> startup behavior_config + listening behavior_config + managing behavior_config \<and>
   valid_weights (1 / 10000) behavior_config \<and> (0.5 :: real) < 1 - 1 / 10000 \<and>
   first_exceeding behavior_config 0.5 = Some Listening \<and>
   phase_of (capacity_default behavior_config ''song'' 0.5) = Listening"
proof -
  have h: "(0.5 :: real) <
      startup behavior_config + listening behavior_config + managing behavior_config"
    and s: "(1 :: real) \<le>
      startup behavior_config + listening behavior_config + managing behavior_config"
    by (simp_all add: behavior_config_def)
  have v: "valid_weights (1 / 10000) behavior_config"
    by (simp add: valid_weights_def behavior_config_def)
  have e: "(0.5 :: real) < 1 - 1 / 10000" by simp
  have p: "phase_of (capacity_default behavior_config ''song'' 0.5) = Listening"
    by (simp add: capacity_default_def behavior_config_def)
  from phase_selection_no_validation [of behavior_config "''song''" "0.5" "1 / 10000"] h
  have "first_exceeding behavior_config 0.5 =
      Some (phase_of (capacity_default behavior_config ''song'' 0.5))"
    by blast
  then have f: "first_exceeding behavior_config 0.5 = Some Listening"
    by (simp only: p)
  from h s v e f p show ?thesis by blast
qed

text \<open>
  C7, as it is stated, fails twice.  With the weights 0.5, 0.2 and 0, which sum to 0.7 and
  of which one is not positive, the draw 0.9 runs the managing phase and nothing fails.
  With the positive weights 0.05, 0.85 and 0.0999, which sum to 1 within 0.0001, and the
  draw 0.99995, no cumulative upper bound exceeds the draw, and the managing phase runs.
\<close>

theorem phase_selection_accepts_invalid_weights:
  "\<not> valid_weights (1 / 10000) \<lparr>startup = 1 / 2, listening = 1 / 5, managing = 0\<rparr> \<and>
   \<bar>(1 / 2 + 1 / 5 + 0) - (1 :: real)\<bar> > 1 / 10 \<and>
   capacity_default \<lparr>startup = 1 / 2, listening = 1 / 5, managing = 0\<rparr> ''song'' (9 / 10)
     = ManagingPhase \<and>
   valid_weights (1 / 10000) \<lparr>startup = 1 / 20, listening = 17 / 20, managing = 999 / 10000\<rparr> \<and>
   (0 :: real) \<le> 99995 / 100000 \<and> (99995 / 100000 :: real) < 1 \<and>
   first_exceeding \<lparr>startup = 1 / 20, listening = 17 / 20, managing = 999 / 10000\<rparr>
     (99995 / 100000) = None \<and>
   capacity_default \<lparr>startup = 1 / 20, listening = 17 / 20, managing = 999 / 10000\<rparr>
     ''song'' (99995 / 100000) = ManagingPhase"
  by (simp add: valid_weights_def capacity_default_def first_exceeding_def)

text \<open>
  Whatever positive tolerance is taken, a table that is valid within it leaves a draw
  below 1 that no cumulative upper bound exceeds.
\<close>

lemma tolerance_leaves_gap:
  assumes "0 < eps" "eps < 1 / 10"
  shows "valid_weights eps \<lparr>startup = 1 / 20, listening = 17 / 20, managing = 1 / 10 - eps\<rparr> \<and>
     0 \<le> 1 - eps / 2 \<and> 1 - eps / 2 < 1 \<and>
     first_exceeding \<lparr>startup = 1 / 20, listening = 17 / 20, managing = 1 / 10 - eps\<rparr>
       (1 - eps / 2) = None"
  using assms by (simp add: valid_weights_def first_exceeding_def)

section \<open>Properties of the telemetry sampler\<close>

lemma monitor_run_all_failed:
  "\<forall>e \<in> set ticks. fst e = None \<Longrightarrow> monitor_run ticks samples = samples"
  unfolding monitor_run_def
  by (induction ticks arbitrary: samples) (auto simp: monitor_tick_def)

text \<open>
  C8.  A run in which the stats command fails on every tick ends with an empty buffer, and
  a tick whose command fails returns the buffer as it was; neither throws.
\<close>

theorem failed_ticks_record_nothing:
  "((\<forall>e \<in> set ticks. fst e = None) \<longrightarrow> monitor_run ticks [] = []) \<and>
   monitor_tick None now samples = samples"
  using monitor_run_all_failed [of ticks "[]"] by (simp add: monitor_tick_def)

theorem failed_ticks_record_nothing_witness:
  "fst (None :: string option, 2000 :: int) = None \<and>
   fst (None :: string option, 4000 :: int) = None \<and>
   monitor_run [(None, 2000), (None, 4000)] [] = [] \<and>
   monitor_tick None 6000
       [\<lparr>timestamp = 2000, containers = [(''m3w'', \<lparr>cpu = Num 1, memMB = Num 256\<rparr>)]\<rparr>] =
     [\<lparr>timestamp = 2000, containers = [(''m3w'', \<lparr>cpu = Num 1, memMB = Num 256\<rparr>)]\<rparr>]"
  using failed_ticks_record_nothing
    [of "[(None, 2000), (None, 4000)]" 6000
      "[\<lparr>timestamp = 2000, containers = [(''m3w'', \<lparr>cpu = Num 1, memMB = Num 256\<rparr>)]\<rparr>]"]
  by simp

text \<open>
  The reading of scripts/monitor.cjs: the six units in any case, and the used value of a
  pair \<open>used / limit\<close>.
\<close>

lemma parseMemory_units:
  "toLowerCase u \<in> {''gib'', ''gb''} \<Longrightarrow> parseMemory (Num v) u = Num (v * 1024)"
  "toLowerCase u \<in> {''mib'', ''mb''} \<Longrightarrow> parseMemory (Num v) u = Num v"
  "toLowerCase u \<in> {''kib'', ''kb''} \<Longrightarrow> parseMemory (Num v) u = Num (v / 1024)"
  by (auto simp add: parseMemory_def starts_with_def js_times_def js_over_def)

lemma toLowerCase_examples:
  "toLowerCase ''GiB'' = ''gib''" "toLowerCase ''kB'' = ''kb''" "toLowerCase ''MIB'' = ''mib''"
  by (simp_all add: toLowerCase_def to_lower_def)

lemma takeWhile_run:
  assumes "\<forall>c \<in> set xs. P c" "ys = [] \<or> \<not> P (hd ys)"
  shows "takeWhile P (xs @ ys) = xs"
proof -
  have "takeWhile P ys = []" using assms(2) by (cases ys) auto
  with assms(1) show ?thesis by simp
qed

lemma split_number_unit_full:
  assumes "0 < k" "takeWhile is_word (drop k s) \<noteq> []"
  shows "split_number_unit k s = Some (take k s, takeWhile is_word (drop k s))"
  using assms by (cases k) (simp_all add: Let_def)

lemma match_number_unit_used:
  assumes ds: "ds \<noteq> []" "\<forall>c \<in> set ds. is_numch c"
    and u: "u \<noteq> []" "\<not> is_numch (hd u)" "\<forall>c \<in> set u. is_word c"
    and r: "r = [] \<or> \<not> is_word (hd r)"
  shows "match_number_unit (ds @ u @ r) = Some (ds, u)"
proof -
  obtain c cs where s: "ds @ u @ r = c # cs" using ds(1) by (cases ds) auto
  have run: "takeWhile is_numch (ds @ u @ r) = ds"
    using ds(2) u(1,2) by (intro takeWhile_run) (auto simp: hd_append)
  have un: "takeWhile is_word (drop (length ds) (ds @ u @ r)) = u"
    using takeWhile_run [of u is_word r] u(3) r by simp
  have "split_number_unit (length ds) (ds @ u @ r) = Some (ds, u)"
    using split_number_unit_full [of "length ds" "ds @ u @ r"] ds(1) u(1) un by simp
  then show ?thesis
    using run unfolding s by simp
qed

lemma monitor_memMB_used_value:
  assumes "ds \<noteq> []" "\<forall>c \<in> set ds. is_numch c"
    and "u \<noteq> []" "\<not> is_numch (hd u)" "\<forall>c \<in> set u. is_word c"
    and "r = [] \<or> \<not> is_word (hd r)"
  shows "monitor_memMB (ds @ u @ r) = parseMemory (parseFloat ds) u"
  by (simp add: monitor_memMB_def match_number_unit_used [OF assms])

text \<open>
  C9.  On the field \<open>512kB / 2GB\<close> the reading of scripts/benchmark-upload.cjs is 2048,
  the limit, where the reading of scripts/monitor.cjs is 0.5, the used value; on
  \<open>256mib / 2gib\<close> it is 0, where the reading of scripts/monitor.cjs is 256.
\<close>

theorem benchmark_reading_takes_limit:
  "benchmark_memMB ''512kB / 2GB'' = Num 2048 \<and>
   monitor_memMB ''512kB / 2GB'' = Num (1 / 2) \<and>
   benchmark_memMB ''256mib / 2gib'' = Num 0 \<and>
   monitor_memMB ''256mib / 2gib'' = Num 256"
proof (intro conjI)
  show "benchmark_memMB ''512kB / 2GB'' = Num 2048"
    by (simp add: benchmark_memMB_def is_numch_def is_digit_def unit_GMK_def starts_with_def
        parseFloat_def digits_val_def js_times_def)
  show "monitor_memMB ''512kB / 2GB'' = Num (1 / 2)"
    by (simp add: monitor_memMB_def is_numch_def is_digit_def is_word_def is_upper_def
        is_lower_def starts_with_def parseFloat_def digits_val_def js_over_def
        parseMemory_def toLowerCase_def to_lower_def)
  show "benchmark_memMB ''256mib / 2gib'' = Num 0"
    by (simp add: benchmark_memMB_def is_numch_def is_digit_def unit_GMK_def starts_with_def)
  show "monitor_memMB ''256mib / 2gib'' = Num 256"
    by (simp add: monitor_memMB_def is_numch_def is_digit_def is_word_def is_upper_def
        is_lower_def starts_with_def parseFloat_def digits_val_def
        parseMemory_def toLowerCase_def to_lower_def)
qed

end
